theory Spec2Isabelle
  imports Main "HOL-Library.Word" "HOL-Library.Multiset"
begin

section \<open>The note-taking backend of \<open>server.js\<close>\<close>

text \<open>
  The server is an Express application over three external collaborators: Google's
  token verifier, a MongoDB collection reached through Mongoose, and a generative-text
  provider. The handlers of \<open>src/server.js\<close> are embedded as functions over an
  explicit collection; what the collaborators answer is an input of the model (the
  record \<open>env\<close>), and every call a handler makes to the verifier or to a text provider
  is written to a trace, so that "no call was made" is a statement about a value.

  Conventions of the embedding:
  \<^item> a JavaScript value that may be \<open>undefined\<close> is an \<open>option\<close>, \<open>None\<close> being
    \<open>undefined\<close> (for a stored field, \<open>null\<close>);
  \<^item> a string is a sequence of characters with code points below 256; text beyond
    that range is not represented;
  \<^item> the request body is a JSON object whose members, where present, are strings, as in
    the interface \<open>{title?, content?}\<close>, \<open>{text}\<close>, \<open>{topic}\<close>: a map from member
    names to strings;
  \<^item> a handler's \<open>try { ... } catch\<close> is the \<open>Inl\<close> branch of the store operation it
    awaits; the store operations fail exactly where the request decides it (a cast or
    validation error, a duplicate key), not where the network would.
\<close>

subsection \<open>Data model\<close>

type_synonym oid = "96 word"
type_synonym timestamp = int

text \<open>\<open>noteSchema\<close>, together with the \<open>_id\<close> every document carries.\<close>

record "note" =
  note_id :: oid
  userId :: string
  title :: "string option"
  content :: "string option"
  createdAt :: timestamp
  updatedAt :: timestamp

type_synonym store = "note list"

text \<open>\<open>req.user\<close>, and the payload of a verified Google ticket it is read from.\<close>

record user =
  uid :: string
  email :: "string option"
  name :: "string option"

record token_payload =
  sub :: string
  payload_email :: "string option"
  payload_name :: "string option"

datatype call =
    VerifyIdToken string
  | OpenAIChat string
  | GeminiGenerate string
  | HFQuery string string

datatype resp_body =
    NoBody
  | JsonError string
  | JsonErrorDetails string string
  | JsonNote "note"
  | JsonNotes "note list"
  | JsonSummary string
  | JsonResult string
  | JsonImproved string
  | JsonIdeas "string list"
  | JsonStatus string

record response =
  status :: nat
  sent :: resp_body

text \<open>
  What the collaborators answer. \<open>verifyIdToken\<close> is \<open>None\<close> when the verifier throws,
  \<open>Some None\<close> when the ticket has no payload, \<open>Some (Some p)\<close> otherwise. \<open>now k\<close> is
  what call \<open>k\<close> of \<open>Date.now\<close> returns, counting from 0 the calls made by the handler
  and by the construction of a document: in a create, call 0 is made when the
  identifier is generated and calls 1 and 2 are the schema defaults of \<open>createdAt\<close> and
  \<open>updatedAt\<close>; in an update, call 0 is the handler's own. The readings are not assumed
  to be related in any way. \<open>newObjectId\<close> is the identifier Mongoose generates for a
  new document (its leading bytes are the seconds of reading 0, which nothing below
  uses). \<open>omitUndefined\<close> says whether
  Mongoose drops the keys of an update whose value is \<open>undefined\<close> (it does from
  version 6 on; before, with the option's default, the key is written as \<open>null\<close>).
  A text provider answers \<open>Inl\<close>/\<open>None\<close> when the call, or reading its answer, throws.
\<close>

record env =
  verifyIdToken :: "string \<Rightarrow> token_payload option option"
  now :: "nat \<Rightarrow> timestamp"
  newObjectId :: oid
  omitUndefined :: bool
  openai_chat :: "string \<Rightarrow> string + string"
  gemini_generate :: "string \<Rightarrow> string option"
  hf_query :: "string \<Rightarrow> string \<Rightarrow> string option"

record result =
  response :: response
  db :: store
  calls :: "call list"

subsection \<open>ObjectId strings\<close>

text \<open>
  A document's \<open>_id\<close> is twelve bytes; in JSON and in a route parameter it is written
  as 24 hexadecimal digits, in either case. \<open>castObjectId\<close> is the cast Mongoose
  applies to the \<open>_id\<close> of a filter, as the current driver makes it: anything but 24
  hexadecimal digits is a \<open>CastError\<close> (\<open>None\<close>). Older drivers also read a string of
  exactly 12 characters as the twelve bytes; strings of any other length are refused by
  all of them.
\<close>

definition hex_table :: "(char \<times> nat) list" where
  "hex_table =
     zip ''0123456789abcdef'' [0..<16] @ zip ''ABCDEF'' [10..<16]"

definition hex_val :: "char \<Rightarrow> nat option" where
  "hex_val c = map_of hex_table c"

definition hex_char :: "nat \<Rightarrow> char" where
  "hex_char d = ''0123456789abcdef'' ! d"

fun hex_digits :: "nat \<Rightarrow> nat \<Rightarrow> string" where
  "hex_digits 0 n = []"
| "hex_digits (Suc k) n = hex_digits k (n div 16) @ [hex_char (n mod 16)]"

definition hex_value :: "string \<Rightarrow> nat" where
  "hex_value s =
     foldl (\<lambda>a c. 16 * a + (case hex_val c of None \<Rightarrow> 0 | Some d \<Rightarrow> d)) 0 s"

definition toHexString :: "oid \<Rightarrow> string" where
  "toHexString w = hex_digits 24 (unat w)"

definition castObjectId :: "string \<Rightarrow> oid option" where
  "castObjectId s =
     (if length s = 24 \<and> list_all (\<lambda>c. hex_val c \<noteq> None) s
      then Some (of_nat (hex_value s)) else None)"

subsection \<open>Authentication middleware\<close>

text \<open>
  \<open>authHeader.split(' ')\<close>: the pieces between single spaces, empty pieces kept; the
  empty string splits into one empty piece.
\<close>

fun split_space :: "string \<Rightarrow> string list" where
  "split_space [] = [[]]"
| "split_space (c # cs) =
     (if c = CHR '' '' then [] # split_space cs
      else (case split_space cs of [] \<Rightarrow> [[c]] | w # ws \<Rightarrow> (c # w) # ws))"

text \<open>
  \<open>const token = authHeader && authHeader.split(' ')[1]\<close>. A missing header is
  \<open>undefined\<close>, an empty one is the empty string (both falsy, so \<open>&&\<close> returns them);
  otherwise the token is element 1 of the split, \<open>undefined\<close> when there is none.
\<close>

definition extract_token :: "string option \<Rightarrow> string option" where
  "extract_token authHeader =
     (case authHeader of
        None \<Rightarrow> None
      | Some h \<Rightarrow>
          if h = [] then Some []
          else (let parts = split_space h
                in if 1 < length parts then Some (parts ! 1) else None))"

text \<open>
  The reading of the token as "the substring after the first space" of the header,
  written out for comparison with \<open>extract_token\<close>: \<open>None\<close> when the header has no
  space.
\<close>

definition after_first_space :: "string \<Rightarrow> string option" where
  "after_first_space h =
     (case dropWhile (\<lambda>c. c \<noteq> CHR '' '') h of [] \<Rightarrow> None | sp # rest \<Rightarrow> Some rest)"

text \<open>\<open>!v\<close> for a value that is a string or \<open>undefined\<close>.\<close>

definition falsy :: "string option \<Rightarrow> bool" where
  "falsy v = (case v of None \<Rightarrow> True | Some x \<Rightarrow> x = [])"

datatype auth_outcome = Rejected response | Next user

definition authenticateToken :: "env \<Rightarrow> string option \<Rightarrow> auth_outcome \<times> call list" where
  "authenticateToken e authHeader =
     (case extract_token authHeader of
        None \<Rightarrow> (Rejected \<lparr>status = 401, sent = JsonError ''Unauthorized''\<rparr>, [])
      | Some token \<Rightarrow>
          if token = [] then (Rejected \<lparr>status = 401, sent = JsonError ''Unauthorized''\<rparr>, [])
          else
            (case verifyIdToken e token of
               None \<Rightarrow>
                 (Rejected \<lparr>status = 403, sent = JsonError ''Invalid token''\<rparr>,
                  [VerifyIdToken token])
             | Some None \<Rightarrow>
                 (Rejected \<lparr>status = 403, sent = JsonError ''Invalid token''\<rparr>,
                  [VerifyIdToken token])
             | Some (Some p) \<Rightarrow>
                 (Next \<lparr>uid = sub p, email = payload_email p, name = payload_name p\<rparr>,
                  [VerifyIdToken token])))"

subsection \<open>The \<open>Note\<close> model\<close>

text \<open>
  The collection is the list of its documents in insertion order. The operations are
  the Mongoose calls of the handlers. A filter \<open>{_id, userId}\<close> casts its \<open>_id\<close> first
  and then selects the first document that has both values.
\<close>

datatype db_error = CastError | ValidationError | DuplicateKey

definition matches :: "oid \<Rightarrow> string \<Rightarrow> note \<Rightarrow> bool" where
  "matches i u n = (note_id n = i \<and> userId n = u)"

text \<open>
  \<open>Note.find({ userId }).sort({ updatedAt: -1 })\<close>. Notes with the same \<open>updatedAt\<close>
  stay in insertion order here; MongoDB promises no order among them, and no statement
  below depends on one.
\<close>

definition find_sorted :: "store \<Rightarrow> string \<Rightarrow> note list" where
  "find_sorted s u = sort_key (\<lambda>n. - updatedAt n) (filter (\<lambda>n. userId n = u) s)"

definition findOne :: "store \<Rightarrow> string \<Rightarrow> string \<Rightarrow> db_error + note option" where
  "findOne s i u =
     (case castObjectId i of
        None \<Rightarrow> Inl CastError
      | Some x \<Rightarrow> Inr (find (matches x u) s))"

fun update_first :: "('a \<Rightarrow> bool) \<Rightarrow> ('a \<Rightarrow> 'a) \<Rightarrow> 'a list \<Rightarrow> 'a list" where
  "update_first P f [] = []"
| "update_first P f (x # xs) = (if P x then f x # xs else x # update_first P f xs)"

fun delete_first :: "('a \<Rightarrow> bool) \<Rightarrow> 'a list \<Rightarrow> 'a list" where
  "delete_first P [] = []"
| "delete_first P (x # xs) = (if P x then xs else x # delete_first P xs)"

text \<open>
  The update document \<open>{ title, content, updatedAt }\<close> becomes a \<open>$set\<close>. A key whose
  value is \<open>undefined\<close> is dropped when \<open>omitUndefined\<close> holds and written as \<open>null\<close>
  otherwise.
\<close>

definition set_field :: "bool \<Rightarrow> string option \<Rightarrow> string option \<Rightarrow> string option" where
  "set_field omit v old = (case v of None \<Rightarrow> (if omit then old else None) | Some x \<Rightarrow> Some x)"

definition apply_update :: "bool \<Rightarrow> string option \<Rightarrow> string option \<Rightarrow> timestamp \<Rightarrow> note \<Rightarrow> note" where
  "apply_update omit t c at n =
     n\<lparr>title := set_field omit t (title n),
       content := set_field omit c (content n),
       updatedAt := at\<rparr>"

text \<open>With \<open>{ new: true }\<close> the document is returned as it is after the update.\<close>

definition findOneAndUpdate ::
  "bool \<Rightarrow> store \<Rightarrow> string \<Rightarrow> string \<Rightarrow> string option \<Rightarrow> string option \<Rightarrow> timestamp
     \<Rightarrow> db_error + (note option \<times> store)" where
  "findOneAndUpdate omit s i u t c at =
     (case castObjectId i of
        None \<Rightarrow> Inl CastError
      | Some x \<Rightarrow>
          (case find (matches x u) s of
             None \<Rightarrow> Inr (None, s)
           | Some n \<Rightarrow>
               Inr (Some (apply_update omit t c at n),
                    update_first (matches x u) (apply_update omit t c at) s)))"

definition findOneAndDelete :: "store \<Rightarrow> string \<Rightarrow> string \<Rightarrow> db_error + (note option \<times> store)" where
  "findOneAndDelete s i u =
     (case castObjectId i of
        None \<Rightarrow> Inl CastError
      | Some x \<Rightarrow>
          (case find (matches x u) s of
             None \<Rightarrow> Inr (None, s)
           | Some n \<Rightarrow> Inr (Some n, delete_first (matches x u) s)))"

text \<open>
  \<open>new Note({ userId, title, content })\<close>: the identifier is generated first (reading 0
  of the clock goes into it), and the schema's defaults \<open>Date.now\<close> of \<open>createdAt\<close> and
  \<open>updatedAt\<close> are two further calls of the clock, in the order of the schema.
\<close>

definition new_Note :: "env \<Rightarrow> string \<Rightarrow> string \<Rightarrow> string \<Rightarrow> note" where
  "new_Note e u t c =
     \<lparr>note_id = newObjectId e, userId = u, title = Some t, content = Some c,
      createdAt = now e 1, updatedAt = now e 2\<rparr>"

text \<open>
  \<open>note.save()\<close>: validation (\<open>userId\<close> is \<open>required\<close>, which an empty string does not
  satisfy), then the insertion, which the collection refuses for an \<open>_id\<close> it already
  holds.
\<close>

definition save :: "store \<Rightarrow> note \<Rightarrow> db_error + store" where
  "save s n =
     (if userId n = [] then Inl ValidationError
      else if note_id n \<in> set (map note_id s) then Inl DuplicateKey
      else Inr (s @ [n]))"

subsection \<open>Note routes\<close>

text \<open>\<open>x || d\<close> for a value that is a string or \<open>undefined\<close>.\<close>

definition or_default :: "string option \<Rightarrow> string \<Rightarrow> string" where
  "or_default v d = (case v of None \<Rightarrow> d | Some x \<Rightarrow> if x = [] then d else x)"

type_synonym json_body = "string \<Rightarrow> string option"

definition get_notes :: "store \<Rightarrow> user \<Rightarrow> response" where
  "get_notes s u = \<lparr>status = 200, sent = JsonNotes (find_sorted s (uid u))\<rparr>"

definition get_note :: "store \<Rightarrow> user \<Rightarrow> string \<Rightarrow> response" where
  "get_note s u i =
     (case findOne s i (uid u) of
        Inl err \<Rightarrow> \<lparr>status = 500, sent = JsonError ''Failed to fetch note''\<rparr>
      | Inr None \<Rightarrow> \<lparr>status = 404, sent = JsonError ''Note not found''\<rparr>
      | Inr (Some n) \<Rightarrow> \<lparr>status = 200, sent = JsonNote n\<rparr>)"

definition post_notes :: "env \<Rightarrow> store \<Rightarrow> user \<Rightarrow> json_body \<Rightarrow> response \<times> store" where
  "post_notes e s u b =
     (let n = new_Note e (uid u)
                (or_default (b ''title'') ''Untitled Note'')
                (or_default (b ''content'') [])
      in case save s n of
           Inl err \<Rightarrow> (\<lparr>status = 500, sent = JsonError ''Failed to create note''\<rparr>, s)
         | Inr s' \<Rightarrow> (\<lparr>status = 201, sent = JsonNote n\<rparr>, s'))"

definition put_note :: "env \<Rightarrow> store \<Rightarrow> user \<Rightarrow> string \<Rightarrow> json_body \<Rightarrow> response \<times> store" where
  "put_note e s u i b =
     (case findOneAndUpdate (omitUndefined e) s i (uid u) (b ''title'') (b ''content'') (now e 0) of
        Inl err \<Rightarrow> (\<lparr>status = 500, sent = JsonError ''Failed to update note''\<rparr>, s)
      | Inr (None, s') \<Rightarrow> (\<lparr>status = 404, sent = JsonError ''Note not found''\<rparr>, s')
      | Inr (Some n, s') \<Rightarrow> (\<lparr>status = 200, sent = JsonNote n\<rparr>, s'))"

definition delete_note :: "store \<Rightarrow> user \<Rightarrow> string \<Rightarrow> response \<times> store" where
  "delete_note s u i =
     (case findOneAndDelete s i (uid u) of
        Inl err \<Rightarrow> (\<lparr>status = 500, sent = JsonError ''Failed to delete note''\<rparr>, s)
      | Inr (None, s') \<Rightarrow> (\<lparr>status = 404, sent = JsonError ''Note not found''\<rparr>, s')
      | Inr (Some n, s') \<Rightarrow> (\<lparr>status = 204, sent = NoBody\<rparr>, s'))"

subsection \<open>Text assist routes\<close>

text \<open>
  \<open>String.prototype.trim\<close> strips white space and line terminators. Among the
  characters below 256 these are tab, line feed, vertical tab, form feed, carriage
  return, space and the no-break space U+00A0.
\<close>

definition is_space :: "char \<Rightarrow> bool" where
  "is_space c =
     (c \<in> set [CHR 0x09, CHR 0x0A, CHR 0x0B, CHR 0x0C, CHR 0x0D, CHR '' '', CHR 0xA0])"

definition trim :: "string \<Rightarrow> string" where
  "trim t = rev (dropWhile is_space (rev (dropWhile is_space t)))"

definition blank_line :: string where
  "blank_line = [CHR 0x0A, CHR 0x0A]"

text \<open>
  \<open>POST /api/ai/summarize\<close> of \<open>server.js\<close>, after the middleware. The guard is
  \<open>!text?.trim()\<close>: a missing \<open>text\<close> and one that trims to the empty string are
  refused before the provider is reached.
\<close>

definition ai_summarize :: "env \<Rightarrow> json_body \<Rightarrow> response \<times> call list" where
  "ai_summarize e b =
     (case b ''text'' of
        None \<Rightarrow> (\<lparr>status = 400, sent = JsonError ''Text is required''\<rparr>, [])
      | Some t \<Rightarrow>
          if trim t = [] then (\<lparr>status = 400, sent = JsonError ''Text is required''\<rparr>, [])
          else
            (let prompt = ''Summarize this in 3-5 concise bullet points:'' @ blank_line @ t
             in case openai_chat e prompt of
                  Inl msg \<Rightarrow>
                    (\<lparr>status = 500, sent = JsonErrorDetails ''Failed to summarize text'' msg\<rparr>,
                     [OpenAIChat prompt])
                | Inr summary \<Rightarrow>
                    (\<lparr>status = 200, sent = JsonSummary summary\<rparr>, [OpenAIChat prompt])))"

text \<open>
  The other deployments of the server (\<open>src/unnamed/part_000\<close>) have the same
  middleware and note routes, and all three assist operations. Their guard is \<open>!text\<close> (\<open>!topic\<close> for the ideas of the Hugging Face
  deployment): it refuses a missing member and the empty string. The two Gemini
  deployments differ in their instructions only.
\<close>

datatype assist = Summarize | Improve | Ideas

definition gemini_handler ::
  "string \<Rightarrow> string \<Rightarrow> env \<Rightarrow> json_body \<Rightarrow> response \<times> call list" where
  "gemini_handler instruction failure e b =
     (case b ''text'' of
        None \<Rightarrow> (\<lparr>status = 400, sent = JsonError ''No text provided''\<rparr>, [])
      | Some t \<Rightarrow>
          if t = [] then (\<lparr>status = 400, sent = JsonError ''No text provided''\<rparr>, [])
          else
            (let prompt = instruction @ blank_line @ t
             in case gemini_generate e prompt of
                  None \<Rightarrow> (\<lparr>status = 500, sent = JsonError failure\<rparr>, [GeminiGenerate prompt])
                | Some answer \<Rightarrow>
                    (\<lparr>status = 200, sent = JsonResult answer\<rparr>, [GeminiGenerate prompt])))"

fun gemini_assist :: "assist \<Rightarrow> env \<Rightarrow> json_body \<Rightarrow> response \<times> call list" where
  "gemini_assist Summarize =
     gemini_handler ''Summarize the following text:'' ''Failed to summarize text''"
| "gemini_assist Improve =
     gemini_handler
       ''Improve the following text by making it more clear, concise, and professional:''
       ''Failed to improve text''"
| "gemini_assist Ideas =
     gemini_handler
       ''Based on the following text, suggest some related ideas, questions to explore, or points to consider:''
       ''Failed to generate ideas''"

fun gemini_assist_brief :: "assist \<Rightarrow> env \<Rightarrow> json_body \<Rightarrow> response \<times> call list" where
  "gemini_assist_brief Summarize =
     gemini_handler ''Summarize the following text:'' ''Failed to summarize text''"
| "gemini_assist_brief Improve =
     gemini_handler ''Improve the following text:'' ''Failed to improve text''"
| "gemini_assist_brief Ideas =
     gemini_handler ''Suggest some ideas based on:'' ''Failed to generate ideas''"

text \<open>
  The Hugging Face deployment. \<open>ideasText.split(/\d+\./)\<close> cuts the text at every
  run of digits that a full stop follows. \<open>split_numbered piece digits t\<close> reads \<open>t\<close>
  from the left, holding the piece read so far and the run of digits that may still
  turn out to be a separator.
\<close>

definition is_digit :: "char \<Rightarrow> bool" where
  "is_digit c = (c \<in> set ''0123456789'')"

fun split_numbered :: "string \<Rightarrow> string \<Rightarrow> string \<Rightarrow> string list" where
  "split_numbered piece digits [] = [piece @ digits]"
| "split_numbered piece digits (c # cs) =
     (if is_digit c then split_numbered piece (digits @ [c]) cs
      else if c = CHR ''.'' \<and> digits \<noteq> [] then piece # split_numbered [] [] cs
      else split_numbered (piece @ digits @ [c]) [] cs)"

definition hf_summarize :: "env \<Rightarrow> json_body \<Rightarrow> response \<times> call list" where
  "hf_summarize e b =
     (case b ''text'' of
        None \<Rightarrow> (\<lparr>status = 400, sent = JsonError ''Text is required''\<rparr>, [])
      | Some t \<Rightarrow>
          if t = [] then (\<lparr>status = 400, sent = JsonError ''Text is required''\<rparr>, [])
          else
            (case hf_query e ''facebook/bart-large-cnn'' t of
               None \<Rightarrow>
                 (\<lparr>status = 500, sent = JsonError ''Failed to summarize text''\<rparr>,
                  [HFQuery ''facebook/bart-large-cnn'' t])
             | Some answer \<Rightarrow>
                 (\<lparr>status = 200, sent = JsonSummary answer\<rparr>,
                  [HFQuery ''facebook/bart-large-cnn'' t])))"

definition hf_improve :: "env \<Rightarrow> json_body \<Rightarrow> response \<times> call list" where
  "hf_improve e b =
     (case b ''text'' of
        None \<Rightarrow> (\<lparr>status = 400, sent = JsonError ''Text is required''\<rparr>, [])
      | Some t \<Rightarrow>
          if t = [] then (\<lparr>status = 400, sent = JsonError ''Text is required''\<rparr>, [])
          else
            (case hf_query e ''google/pegasus-xsum'' t of
               None \<Rightarrow>
                 (\<lparr>status = 500, sent = JsonError ''Failed to improve text''\<rparr>,
                  [HFQuery ''google/pegasus-xsum'' t])
             | Some answer \<Rightarrow>
                 (\<lparr>status = 200, sent = JsonImproved answer\<rparr>,
                  [HFQuery ''google/pegasus-xsum'' t])))"

definition hf_ideas :: "env \<Rightarrow> json_body \<Rightarrow> response \<times> call list" where
  "hf_ideas e b =
     (case b ''topic'' of
        None \<Rightarrow> (\<lparr>status = 400, sent = JsonError ''Topic is required''\<rparr>, [])
      | Some topic \<Rightarrow>
          if topic = [] then (\<lparr>status = 400, sent = JsonError ''Topic is required''\<rparr>, [])
          else
            (let prompt = ''Generate 5 creative ideas about: '' @ topic @ blank_line @ ''1.''
             in case hf_query e ''EleutherAI/gpt-neo-1.3B'' prompt of
                  None \<Rightarrow>
                    (\<lparr>status = 500, sent = JsonError ''Failed to generate ideas''\<rparr>,
                     [HFQuery ''EleutherAI/gpt-neo-1.3B'' prompt])
                | Some answer \<Rightarrow>
                    (\<lparr>status = 200,
                      sent = JsonIdeas (filter (\<lambda>item. trim item \<noteq> [])
                                          (split_numbered [] [] (''1.'' @ answer)))\<rparr>,
                     [HFQuery ''EleutherAI/gpt-neo-1.3B'' prompt])))"

fun hf_assist :: "assist \<Rightarrow> env \<Rightarrow> json_body \<Rightarrow> response \<times> call list" where
  "hf_assist Summarize = hf_summarize"
| "hf_assist Improve = hf_improve"
| "hf_assist Ideas = hf_ideas"

subsection \<open>The application\<close>

datatype route =
    GET_notes
  | GET_note string
  | POST_notes
  | PUT_note string
  | DELETE_note string
  | POST_ai_summarize
  | GET_test

record request =
  authorization :: "string option"
  route :: route
  body :: json_body

fun note_route :: "route \<Rightarrow> bool" where
  "note_route POST_ai_summarize = False"
| "note_route GET_test = False"
| "note_route r = True"

definition api_test :: response where
  "api_test = \<lparr>status = 200, sent = JsonStatus ''API is working!''\<rparr>"

text \<open>The handler of a route; those of the protected routes read \<open>req.user\<close>.\<close>

fun handler :: "env \<Rightarrow> store \<Rightarrow> user \<Rightarrow> json_body \<Rightarrow> route \<Rightarrow> result" where
  "handler e s u b GET_notes = \<lparr>response = get_notes s u, db = s, calls = []\<rparr>"
| "handler e s u b (GET_note i) = \<lparr>response = get_note s u i, db = s, calls = []\<rparr>"
| "handler e s u b POST_notes =
     (case post_notes e s u b of (r, s') \<Rightarrow> \<lparr>response = r, db = s', calls = []\<rparr>)"
| "handler e s u b (PUT_note i) =
     (case put_note e s u i b of (r, s') \<Rightarrow> \<lparr>response = r, db = s', calls = []\<rparr>)"
| "handler e s u b (DELETE_note i) =
     (case delete_note s u i of (r, s') \<Rightarrow> \<lparr>response = r, db = s', calls = []\<rparr>)"
| "handler e s u b POST_ai_summarize =
     (case ai_summarize e b of (r, cs) \<Rightarrow> \<lparr>response = r, db = s, calls = cs\<rparr>)"
| "handler e s u b GET_test = \<lparr>response = api_test, db = s, calls = []\<rparr>"

text \<open>
  \<open>server.js\<close>: every route but \<open>/api/test\<close> is registered behind
  \<open>authenticateToken\<close>; a request the middleware answers never reaches its handler.
\<close>

definition server :: "env \<Rightarrow> store \<Rightarrow> request \<Rightarrow> result" where
  "server e s r =
     (if route r = GET_test then \<lparr>response = api_test, db = s, calls = []\<rparr>
      else
        (case authenticateToken e (authorization r) of
           (Rejected resp, cs) \<Rightarrow> \<lparr>response = resp, db = s, calls = cs\<rparr>
         | (Next u, cs) \<Rightarrow>
             (let h = handler e s u (body r) (route r) in h\<lparr>calls := cs @ calls h\<rparr>)))"

text \<open>
  The assist routes of the other deployments: behind the middleware in the Gemini
  ones, open in the Hugging Face one.
\<close>

definition behind_auth ::
  "env \<Rightarrow> string option \<Rightarrow> (user \<Rightarrow> response \<times> call list) \<Rightarrow> response \<times> call list" where
  "behind_auth e authHeader h =
     (case authenticateToken e authHeader of
        (Rejected resp, cs) \<Rightarrow> (resp, cs)
      | (Next u, cs) \<Rightarrow> (case h u of (resp, cs') \<Rightarrow> (resp, cs @ cs')))"

definition gemini_route :: "assist \<Rightarrow> env \<Rightarrow> string option \<Rightarrow> json_body \<Rightarrow> response \<times> call list" where
  "gemini_route a e authHeader b = behind_auth e authHeader (\<lambda>u. gemini_assist a e b)"

definition gemini_route_brief ::
  "assist \<Rightarrow> env \<Rightarrow> string option \<Rightarrow> json_body \<Rightarrow> response \<times> call list" where
  "gemini_route_brief a e authHeader b = behind_auth e authHeader (\<lambda>u. gemini_assist_brief a e b)"

definition hf_route :: "assist \<Rightarrow> env \<Rightarrow> string option \<Rightarrow> json_body \<Rightarrow> response \<times> call list" where
  "hf_route a e authHeader b = hf_assist a e b"

subsection \<open>Example data\<close>

text \<open>
  Two users known to the verifier, an environment and a collection with notes of
  both users; the concrete instances below are evaluated on them.
\<close>

definition alice :: token_payload where
  "alice = \<lparr>sub = ''alice'', payload_email = Some ''alice@example.org'', payload_name = Some ''Alice''\<rparr>"

definition bob :: token_payload where
  "bob = \<lparr>sub = ''bob'', payload_email = Some ''bob@example.org'', payload_name = None\<rparr>"

definition example_verifier :: "string \<Rightarrow> token_payload option option" where
  "example_verifier t =
     (if t = ''tokA'' then Some (Some alice)
      else if t = ''tokB'' then Some (Some bob)
      else None)"

definition example_env :: env where
  "example_env =
     \<lparr>verifyIdToken = example_verifier,
      now = (\<lambda>k. 1700000000000 + int k),
      newObjectId = 3,
      omitUndefined = True,
      openai_chat = (\<lambda>p. Inr ''- a summary''),
      gemini_generate = (\<lambda>p. Some ''a result''),
      hf_query = (\<lambda>m p. Some '' first 2. second'')\<rparr>"

definition example_store :: store where
  "example_store =
     [\<lparr>note_id = 1, userId = ''alice'', title = Some ''Shopping'', content = Some ''milk'',
       createdAt = 1600000000000, updatedAt = 1600000000500\<rparr>,
      \<lparr>note_id = 2, userId = ''bob'', title = Some ''Ideas'', content = Some [],
       createdAt = 1600000000100, updatedAt = 1600000000100\<rparr>,
      \<lparr>note_id = 4, userId = ''alice'', title = Some ''Minutes'', content = Some ''agenda'',
       createdAt = 1600000000200, updatedAt = 1600000000900\<rparr>]"

section \<open>Properties\<close>

subsection \<open>ObjectId strings round-trip\<close>

lemma hex_val_hex_char: "d < 16 \<Longrightarrow> hex_val (hex_char d) = Some d"
proof -
  assume "d < 16"
  then have "d \<in> set [0..<16]" by simp
  then show ?thesis
    unfolding hex_val_def hex_char_def hex_table_def
    by (simp add: upt_rec) (elim disjE; simp)
qed

lemma length_hex_digits: "length (hex_digits k n) = k"
  by (induction k arbitrary: n) simp_all

lemma hex_digits_valid: "list_all (\<lambda>c. hex_val c \<noteq> None) (hex_digits k n)"
  by (induction k arbitrary: n) (simp_all add: hex_val_hex_char)

lemma hex_value_snoc:
  "hex_value (t @ [c]) = 16 * hex_value t + (case hex_val c of None \<Rightarrow> 0 | Some d \<Rightarrow> d)"
  by (simp add: hex_value_def)

lemma hex_value_hex_digits: "hex_value (hex_digits k n) = n mod 16 ^ k"
proof (induction k arbitrary: n)
  case 0
  show ?case by (simp add: hex_value_def)
next
  case (Suc k)
  have "hex_value (hex_digits (Suc k) n) = 16 * (n div 16 mod 16 ^ k) + n mod 16"
    by (simp add: hex_value_snoc Suc hex_val_hex_char)
  also have "\<dots> = n mod 16 ^ Suc k"
    by (simp add: mod_mult2_eq)
  finally show ?case .
qed

lemma castObjectId_toHexString: "castObjectId (toHexString w) = Some w"
proof -
  have "unat w < 2 ^ 96" using unsigned_less [of w] by simp
  then have "unat w mod 16 ^ 24 = unat w" by simp
  then show ?thesis
    unfolding castObjectId_def toHexString_def
    using hex_digits_valid [of 24 "unat w"]
    by (simp only: length_hex_digits hex_value_hex_digits if_True simp_thms) simp
qed


lemma length_toHexString: "length (toHexString w) = 24"
  by (simp add: toHexString_def length_hex_digits)

lemma castObjectId_short: "length i \<noteq> 24 \<Longrightarrow> castObjectId i = None"
  by (simp add: castObjectId_def)

subsection \<open>Filters over a collection with unique identifiers\<close>

lemma find_append_None: "find P xs = None \<Longrightarrow> find P (xs @ ys) = find P ys"
  by (induction xs) (auto split: if_splits)

lemma find_matches_None: "find (matches x u) s = None \<longleftrightarrow> \<not> (\<exists>m \<in> set s. note_id m = x \<and> userId m = u)"
  by (auto simp: find_None_iff matches_def)

lemma find_matches_other:
  assumes "distinct (map note_id s)" "n \<in> set s" "userId n \<noteq> u"
  shows "find (matches (note_id n) u) s = None"
proof -
  have "m = n" if "m \<in> set s" "note_id m = note_id n" for m
    using that assms(1,2) by (meson distinct_map inj_onD)
  with assms(3) show ?thesis
    by (auto simp: find_matches_None)
qed

lemma find_matches_absent:
  "note_id n \<notin> note_id ` set s \<Longrightarrow> find (matches (note_id n) u) s = None"
  by (force simp: find_matches_None)

lemma find_matches_own:
  assumes "distinct (map note_id s)" "n \<in> set s"
  shows "find (matches (note_id n) (userId n)) s = Some n"
  using assms
proof (induction s)
  case Nil
  then show ?case by simp
next
  case (Cons m s)
  then show ?case
    by (auto simp: matches_def rev_image_eqI)
qed

lemma delete_first_own:
  assumes "distinct (map note_id s)" "n \<in> set s"
  shows "delete_first (matches (note_id n) (userId n)) s = filter (\<lambda>m. note_id m \<noteq> note_id n) s"
  using assms
proof (induction s)
  case Nil
  then show ?case by simp
next
  case (Cons m s)
  show ?case
  proof (cases "m = n")
    case True
    with Cons.prems have "note_id n \<notin> note_id ` set s" by simp
    then have "\<forall>k \<in> set s. note_id k \<noteq> note_id n" by (metis imageI)
    then have "filter (\<lambda>m. note_id m \<noteq> note_id n) s = s"
      by (simp add: filter_id_conv)
    with True show ?thesis by (simp add: matches_def)
  next
    case False
    with Cons.prems have "n \<in> set s" "note_id m \<noteq> note_id n" by auto
    with Cons show ?thesis by (simp add: matches_def)
  qed
qed

subsection \<open>The example users authenticate\<close>

lemma example_auth_alice:
  "authenticateToken example_env (Some ''Bearer tokA'')
     = (Next \<lparr>uid = ''alice'', email = Some ''alice@example.org'', name = Some ''Alice''\<rparr>,
        [VerifyIdToken ''tokA''])"
  by (simp add: authenticateToken_def extract_token_def example_env_def example_verifier_def alice_def)

lemma example_auth_bob:
  "authenticateToken example_env (Some ''Bearer tokB'')
     = (Next \<lparr>uid = ''bob'', email = Some ''bob@example.org'', name = None\<rparr>, [VerifyIdToken ''tokB''])"
  by (simp add: authenticateToken_def extract_token_def example_env_def example_verifier_def bob_def)

subsection \<open>Isolation between users\<close>

text \<open>
  C1. Let \<open>n\<close> be a note of the collection whose owner is not the caller \<open>b\<close>. A
  Get-one, Update or Delete request of \<open>b\<close> with the identifier of \<open>n\<close> is answered
  404 \<open>Note not found\<close>, leaves the collection as it is, and the answer is the one the
  same request gets from any collection \<open>s'\<close> that holds no note with this identifier:
  \<open>b\<close> cannot tell whether the note exists.
\<close>

theorem cross_user_isolation:
  assumes "authenticateToken e h = (Next b, cs)"
    and "distinct (map note_id s)"
    and "n \<in> set s" and "userId n \<noteq> uid b"
    and "note_id n \<notin> note_id ` set s'"
    and "rt \<in> {GET_note (toHexString (note_id n)), PUT_note (toHexString (note_id n)),
                DELETE_note (toHexString (note_id n))}"
  shows "response (server e s \<lparr>authorization = h, route = rt, body = bd\<rparr>)
           = \<lparr>status = 404, sent = JsonError ''Note not found''\<rparr>
       \<and> db (server e s \<lparr>authorization = h, route = rt, body = bd\<rparr>) = s
       \<and> response (server e s' \<lparr>authorization = h, route = rt, body = bd\<rparr>)
           = response (server e s \<lparr>authorization = h, route = rt, body = bd\<rparr>)"
proof -
  have here: "find (matches (note_id n) (uid b)) s = None"
    using assms(2-4) by (rule find_matches_other)
  have there: "find (matches (note_id n) (uid b)) s' = None"
    using assms(5) by (rule find_matches_absent)
  from assms(6) consider
      "rt = GET_note (toHexString (note_id n))"
    | "rt = PUT_note (toHexString (note_id n))"
    | "rt = DELETE_note (toHexString (note_id n))"
    by auto
  then show ?thesis
  proof cases
    case 1
    with assms(1) here there show ?thesis
      by (simp add: server_def get_note_def findOne_def castObjectId_toHexString)
  next
    case 2
    with assms(1) here there show ?thesis
      by (simp add: server_def put_note_def findOneAndUpdate_def castObjectId_toHexString)
  next
    case 3
    with assms(1) here there show ?thesis
      by (simp add: server_def delete_note_def findOneAndDelete_def castObjectId_toHexString)
  qed
qed

theorem cross_user_isolation_witness:
  "response (server example_env example_store
       \<lparr>authorization = Some ''Bearer tokB'', route = GET_note (toHexString 1), body = Map.empty\<rparr>)
     = \<lparr>status = 404, sent = JsonError ''Note not found''\<rparr>
   \<and> response (server example_env example_store
       \<lparr>authorization = Some ''Bearer tokB'', route = PUT_note (toHexString 1),
        body = [''title'' \<mapsto> ''mine now'']\<rparr>)
     = \<lparr>status = 404, sent = JsonError ''Note not found''\<rparr>
   \<and> db (server example_env example_store
       \<lparr>authorization = Some ''Bearer tokB'', route = PUT_note (toHexString 1),
        body = [''title'' \<mapsto> ''mine now'']\<rparr>) = example_store
   \<and> response (server example_env example_store
       \<lparr>authorization = Some ''Bearer tokB'', route = DELETE_note (toHexString 1), body = Map.empty\<rparr>)
     = \<lparr>status = 404, sent = JsonError ''Note not found''\<rparr>
   \<and> db (server example_env example_store
       \<lparr>authorization = Some ''Bearer tokB'', route = DELETE_note (toHexString 1), body = Map.empty\<rparr>)
     = example_store
   \<and> response (server example_env []
       \<lparr>authorization = Some ''Bearer tokB'', route = DELETE_note (toHexString 1), body = Map.empty\<rparr>)
     = response (server example_env example_store
       \<lparr>authorization = Some ''Bearer tokB'', route = DELETE_note (toHexString 1), body = Map.empty\<rparr>)"
  using cross_user_isolation [OF example_auth_bob, of example_store
      "\<lparr>note_id = 1, userId = ''alice'', title = Some ''Shopping'', content = Some ''milk'',
        createdAt = 1600000000000, updatedAt = 1600000000500\<rparr>" "[]"
      "GET_note (toHexString 1)" Map.empty]
    cross_user_isolation [OF example_auth_bob, of example_store
      "\<lparr>note_id = 1, userId = ''alice'', title = Some ''Shopping'', content = Some ''milk'',
        createdAt = 1600000000000, updatedAt = 1600000000500\<rparr>" "[]"
      "PUT_note (toHexString 1)" "[''title'' \<mapsto> ''mine now'']"]
    cross_user_isolation [OF example_auth_bob, of example_store
      "\<lparr>note_id = 1, userId = ''alice'', title = Some ''Shopping'', content = Some ''milk'',
        createdAt = 1600000000000, updatedAt = 1600000000500\<rparr>" "[]"
      "DELETE_note (toHexString 1)" Map.empty]
  by (simp add: example_store_def)

subsection \<open>Authentication\<close>

lemma server_authenticated:
  assumes "authenticateToken e h = (Next u, cs)" "rt \<noteq> GET_test"
  shows "server e s \<lparr>authorization = h, route = rt, body = bd\<rparr>
           = (handler e s u bd rt)\<lparr>calls := cs @ calls (handler e s u bd rt)\<rparr>"
  using assms by (simp add: server_def Let_def)

lemma server_rejected:
  assumes "authenticateToken e (authorization r) = (Rejected resp, cs)" "route r \<noteq> GET_test"
  shows "server e s r = \<lparr>response = resp, db = s, calls = cs\<rparr>"
  using assms by (simp add: server_def)

lemma note_route_not_test: "note_route rt \<Longrightarrow> rt \<noteq> GET_test"
  by (cases rt) simp_all

lemma authenticate_no_token:
  "falsy (extract_token h) \<Longrightarrow>
     authenticateToken e h = (Rejected \<lparr>status = 401, sent = JsonError ''Unauthorized''\<rparr>, [])"
  by (auto simp: authenticateToken_def falsy_def split: option.splits)

lemma authenticate_invalid:
  "extract_token h = Some tok \<Longrightarrow> tok \<noteq> [] \<Longrightarrow> verifyIdToken e tok = None \<Longrightarrow>
     authenticateToken e h
       = (Rejected \<lparr>status = 403, sent = JsonError ''Invalid token''\<rparr>, [VerifyIdToken tok])"
  by (simp add: authenticateToken_def)

text \<open>
  C3. On every note route, a request without an \<open>Authorization\<close> header, or whose
  header carries no token, is answered 401 \<open>Unauthorized\<close> with no call to the
  verifier; a request whose token the verifier rejects is answered 403
  \<open>Invalid token\<close>. Neither reaches the collection.
\<close>

theorem auth_error_taxonomy:
  assumes "note_route (route r)"
  shows "((authorization r = None \<or> falsy (extract_token (authorization r))) \<longrightarrow>
            server e s r
              = \<lparr>response = \<lparr>status = 401, sent = JsonError ''Unauthorized''\<rparr>, db = s, calls = []\<rparr>)
       \<and> (\<forall>tok. extract_token (authorization r) = Some tok \<and> tok \<noteq> []
                \<and> verifyIdToken e tok = None \<longrightarrow>
            server e s r
              = \<lparr>response = \<lparr>status = 403, sent = JsonError ''Invalid token''\<rparr>, db = s,
                 calls = [VerifyIdToken tok]\<rparr>)"
proof (intro conjI impI allI)
  assume "authorization r = None \<or> falsy (extract_token (authorization r))"
  then have "falsy (extract_token (authorization r))"
    by (auto simp: extract_token_def falsy_def)
  then show "server e s r
      = \<lparr>response = \<lparr>status = 401, sent = JsonError ''Unauthorized''\<rparr>, db = s, calls = []\<rparr>"
    using assms by (simp add: server_rejected authenticate_no_token note_route_not_test)
next
  fix tok
  assume "extract_token (authorization r) = Some tok \<and> tok \<noteq> [] \<and> verifyIdToken e tok = None"
  then show "server e s r
      = \<lparr>response = \<lparr>status = 403, sent = JsonError ''Invalid token''\<rparr>, db = s,
         calls = [VerifyIdToken tok]\<rparr>"
    using assms by (simp add: server_rejected authenticate_invalid note_route_not_test)
qed

theorem auth_error_taxonomy_witness:
  "note_route (DELETE_note (toHexString 1))
   \<and> server example_env example_store
       \<lparr>authorization = None, route = DELETE_note (toHexString 1), body = Map.empty\<rparr>
     = \<lparr>response = \<lparr>status = 401, sent = JsonError ''Unauthorized''\<rparr>, db = example_store,
        calls = []\<rparr>
   \<and> extract_token (Some ''Bearer expired'') = Some ''expired''
   \<and> verifyIdToken example_env ''expired'' = None
   \<and> server example_env example_store
       \<lparr>authorization = Some ''Bearer expired'', route = DELETE_note (toHexString 1),
        body = Map.empty\<rparr>
     = \<lparr>response = \<lparr>status = 403, sent = JsonError ''Invalid token''\<rparr>, db = example_store,
        calls = [VerifyIdToken ''expired'']\<rparr>"
  using auth_error_taxonomy [of "\<lparr>authorization = None, route = DELETE_note (toHexString 1),
          body = Map.empty\<rparr>" example_env example_store]
    auth_error_taxonomy [of "\<lparr>authorization = Some ''Bearer expired'',
          route = DELETE_note (toHexString 1), body = Map.empty\<rparr>" example_env example_store]
  by (simp add: extract_token_def example_env_def example_verifier_def)

subsection \<open>Listing\<close>

lemma find_sorted_mset: "mset (find_sorted s u) = mset (filter (\<lambda>n. userId n = u) s)"
  by (simp add: find_sorted_def)

lemma find_sorted_descending:
  "sorted_wrt (\<lambda>a b. updatedAt b \<le> updatedAt a) (find_sorted s u)"
proof -
  have "sorted (map (\<lambda>n. - updatedAt n) (find_sorted s u))"
    by (simp add: find_sorted_def)
  then show ?thesis by (simp add: sorted_map)
qed

lemma find_sorted_strict:
  assumes "distinct (map updatedAt (filter (\<lambda>n. userId n = u) s))"
  shows "sorted_wrt (\<lambda>a b. updatedAt b < updatedAt a) (find_sorted s u)"
proof -
  have "mset (map updatedAt (find_sorted s u)) = mset (map updatedAt (filter (\<lambda>n. userId n = u) s))"
    by (simp add: find_sorted_mset)
  with assms have d: "distinct (map updatedAt (find_sorted s u))"
    by (metis mset_eq_imp_distinct_iff)
  have "distinct (map (\<lambda>n. - updatedAt n) (find_sorted s u))"
    using d by (simp add: distinct_map inj_on_def)
  moreover have "sorted (map (\<lambda>n. - updatedAt n) (find_sorted s u))"
    by (simp add: find_sorted_def)
  ultimately have "sorted_wrt (<) (map (\<lambda>n. - updatedAt n) (find_sorted s u))"
    by (simp add: strict_sorted_iff)
  then show ?thesis by (simp add: sorted_wrt_map)
qed

text \<open>
  C4. For a caller with a verified identity, List answers 200 with exactly the notes
  whose \<open>userId\<close> is the caller's (as a multiset of documents), in descending order of
  \<open>updatedAt\<close>, strictly descending when these notes have pairwise distinct
  \<open>updatedAt\<close>; with no such note the answer is still the 200, with the empty list.
\<close>

theorem list_scoped_and_ordered:
  assumes "authenticateToken e h = (Next u, cs)"
  shows "response (server e s \<lparr>authorization = h, route = GET_notes, body = bd\<rparr>)
           = \<lparr>status = 200, sent = JsonNotes (find_sorted s (uid u))\<rparr>
       \<and> mset (find_sorted s (uid u)) = mset (filter (\<lambda>n. userId n = uid u) s)
       \<and> sorted_wrt (\<lambda>a b. updatedAt b \<le> updatedAt a) (find_sorted s (uid u))
       \<and> (distinct (map updatedAt (filter (\<lambda>n. userId n = uid u) s)) \<longrightarrow>
            sorted_wrt (\<lambda>a b. updatedAt b < updatedAt a) (find_sorted s (uid u)))
       \<and> (filter (\<lambda>n. userId n = uid u) s = [] \<longrightarrow> find_sorted s (uid u) = [])"
proof (intro conjI impI)
  show "response (server e s \<lparr>authorization = h, route = GET_notes, body = bd\<rparr>)
           = \<lparr>status = 200, sent = JsonNotes (find_sorted s (uid u))\<rparr>"
    using assms by (simp add: server_authenticated get_notes_def)
  show "mset (find_sorted s (uid u)) = mset (filter (\<lambda>n. userId n = uid u) s)"
    by (rule find_sorted_mset)
  show "sorted_wrt (\<lambda>a b. updatedAt b \<le> updatedAt a) (find_sorted s (uid u))"
    by (rule find_sorted_descending)
  show "sorted_wrt (\<lambda>a b. updatedAt b < updatedAt a) (find_sorted s (uid u))"
    if "distinct (map updatedAt (filter (\<lambda>n. userId n = uid u) s))"
    using that by (rule find_sorted_strict)
  show "find_sorted s (uid u) = []" if "filter (\<lambda>n. userId n = uid u) s = []"
    using that by (simp add: find_sorted_def)
qed


theorem list_scoped_and_ordered_witness:
  "response (server example_env example_store
       \<lparr>authorization = Some ''Bearer tokA'', route = GET_notes, body = Map.empty\<rparr>)
     = \<lparr>status = 200, sent = JsonNotes
         [\<lparr>note_id = 4, userId = ''alice'', title = Some ''Minutes'', content = Some ''agenda'',
           createdAt = 1600000000200, updatedAt = 1600000000900\<rparr>,
          \<lparr>note_id = 1, userId = ''alice'', title = Some ''Shopping'', content = Some ''milk'',
           createdAt = 1600000000000, updatedAt = 1600000000500\<rparr>]\<rparr>
   \<and> distinct (map updatedAt (filter (\<lambda>n. userId n = ''alice'') example_store))
   \<and> sorted_wrt (\<lambda>a b. updatedAt b < updatedAt a) (find_sorted example_store ''alice'')
   \<and> filter (\<lambda>n. userId n = ''alice'') [] = []
   \<and> response (server example_env []
       \<lparr>authorization = Some ''Bearer tokA'', route = GET_notes, body = Map.empty\<rparr>)
     = \<lparr>status = 200, sent = JsonNotes []\<rparr>"
  using list_scoped_and_ordered [OF example_auth_alice, of example_store Map.empty]
    list_scoped_and_ordered [OF example_auth_alice, of "[]" Map.empty]
  by (simp add: example_store_def find_sorted_def)

subsection \<open>Creating a note\<close>

lemma post_notes_saved:
  assumes "uid u \<noteq> []" and "newObjectId e \<notin> note_id ` set s"
  shows "post_notes e s u b
     = (\<lparr>status = 201, sent = JsonNote
          \<lparr>note_id = newObjectId e, userId = uid u,
           title = Some (or_default (b ''title'') ''Untitled Note''),
           content = Some (or_default (b ''content'') []),
           createdAt = now e 1, updatedAt = now e 2\<rparr>\<rparr>,
        s @ [\<lparr>note_id = newObjectId e, userId = uid u,
              title = Some (or_default (b ''title'') ''Untitled Note''),
              content = Some (or_default (b ''content'') []),
              createdAt = now e 1, updatedAt = now e 2\<rparr>])"
  using assms by (simp add: post_notes_def new_Note_def save_def Let_def)

lemma post_notes_refused:
  assumes "uid u = [] \<or> newObjectId e \<in> note_id ` set s"
  shows "post_notes e s u b = (\<lparr>status = 500, sent = JsonError ''Failed to create note''\<rparr>, s)"
  using assms by (auto simp: post_notes_def new_Note_def save_def Let_def)

text \<open>
  The two timestamps of a new note are two readings of the clock, not one creation
  time: where the clock advances between the two schema defaults, \<open>createdAt\<close> and
  \<open>updatedAt\<close> differ.
\<close>

theorem create_timestamps_counterexample:
  "response (server example_env example_store
       \<lparr>authorization = Some ''Bearer tokB'', route = POST_notes, body = Map.empty\<rparr>)
     = \<lparr>status = 201, sent = JsonNote
         \<lparr>note_id = 3, userId = ''bob'', title = Some ''Untitled Note'', content = Some [],
          createdAt = 1700000000001, updatedAt = 1700000000002\<rparr>\<rparr>
   \<and> createdAt \<lparr>note_id = 3, userId = ''bob'', title = Some ''Untitled Note'', content = Some [],
          createdAt = 1700000000001, updatedAt = 1700000000002\<rparr>
     \<noteq> updatedAt \<lparr>note_id = 3, userId = ''bob'', title = Some ''Untitled Note'', content = Some [],
          createdAt = 1700000000001, updatedAt = 1700000000002\<rparr>"
proof -
  have fresh: "newObjectId example_env \<notin> note_id ` set example_store"
    by (simp add: example_env_def example_store_def)
  have "response (server example_env example_store
       \<lparr>authorization = Some ''Bearer tokB'', route = POST_notes, body = Map.empty\<rparr>)
     = \<lparr>status = 201, sent = JsonNote
         \<lparr>note_id = newObjectId example_env, userId = ''bob'', title = Some ''Untitled Note'',
          content = Some [], createdAt = now example_env 1, updatedAt = now example_env 2\<rparr>\<rparr>"
    using fresh
    by (simp add: server_authenticated [OF example_auth_bob] post_notes_saved or_default_def)
  then show ?thesis by (simp add: example_env_def)
qed

text \<open>
  C5 (amended). A create request with a valid token whose body has neither \<open>title\<close>
  nor \<open>content\<close> (the empty object is one) is answered 201 with a note titled
  \<open>Untitled Note\<close>, with empty content, owned by the verified identity; its
  \<open>createdAt\<close> and \<open>updatedAt\<close> are two successive readings of the clock taken while the
  note is created, \<open>createdAt\<close> first, and they are equal exactly when these two
  readings are. The note is stored, and a Get-one of the same user with the identifier
  of the answer returns this very document. The identifier Mongoose generates is taken
  to be new to the collection.
\<close>

theorem create_defaults:
  assumes "authenticateToken e h = (Next u, cs)" and "uid u \<noteq> []"
    and "bd ''title'' = None" and "bd ''content'' = None"
    and "newObjectId e \<notin> note_id ` set s"
    and "authenticateToken e' h' = (Next u', cs')" and "uid u' = uid u"
  shows "response (server e s \<lparr>authorization = h, route = POST_notes, body = bd\<rparr>)
           = \<lparr>status = 201, sent = JsonNote
               \<lparr>note_id = newObjectId e, userId = uid u, title = Some ''Untitled Note'',
                content = Some [], createdAt = now e 1, updatedAt = now e 2\<rparr>\<rparr>
       \<and> db (server e s \<lparr>authorization = h, route = POST_notes, body = bd\<rparr>)
           = s @ [\<lparr>note_id = newObjectId e, userId = uid u, title = Some ''Untitled Note'',
                content = Some [], createdAt = now e 1, updatedAt = now e 2\<rparr>]
       \<and> response (server e' (db (server e s \<lparr>authorization = h, route = POST_notes, body = bd\<rparr>))
             \<lparr>authorization = h', route = GET_note (toHexString (newObjectId e)), body = bd'\<rparr>)
           = \<lparr>status = 200, sent = JsonNote
               \<lparr>note_id = newObjectId e, userId = uid u, title = Some ''Untitled Note'',
                content = Some [], createdAt = now e 1, updatedAt = now e 2\<rparr>\<rparr>
       \<and> (createdAt \<lparr>note_id = newObjectId e, userId = uid u, title = Some ''Untitled Note'',
                content = Some [], createdAt = now e 1, updatedAt = now e 2\<rparr>
            = updatedAt \<lparr>note_id = newObjectId e, userId = uid u, title = Some ''Untitled Note'',
                content = Some [], createdAt = now e 1, updatedAt = now e 2\<rparr>)
           = (now e 1 = now e 2)"
proof -
  let ?n = "\<lparr>note_id = newObjectId e, userId = uid u, title = Some ''Untitled Note'',
                content = Some [], createdAt = now e 1, updatedAt = now e 2\<rparr>"
  have created: "post_notes e s u bd = (\<lparr>status = 201, sent = JsonNote ?n\<rparr>, s @ [?n])"
    using assms(2-5) by (simp add: post_notes_saved or_default_def)
  have "find (matches (newObjectId e) (uid u)) s = None"
    using assms(5) by (force simp: find_matches_None)
  then have found: "find (matches (newObjectId e) (uid u')) (s @ [?n]) = Some ?n"
    using assms(7) by (simp add: find_append_None matches_def)
  have post: "server e s \<lparr>authorization = h, route = POST_notes, body = bd\<rparr>
      = \<lparr>response = \<lparr>status = 201, sent = JsonNote ?n\<rparr>, db = s @ [?n], calls = cs\<rparr>"
    using assms(1) created by (simp add: server_authenticated)
  have "response (server e' (s @ [?n])
          \<lparr>authorization = h', route = GET_note (toHexString (newObjectId e)), body = bd'\<rparr>)
      = \<lparr>status = 200, sent = JsonNote ?n\<rparr>"
    using assms(6) found
    by (simp add: server_authenticated get_note_def findOne_def castObjectId_toHexString)
  with post show ?thesis by simp
qed

theorem create_defaults_witness:
  "authenticateToken example_env (Some ''Bearer tokA'')
     = (Next \<lparr>uid = ''alice'', email = Some ''alice@example.org'', name = Some ''Alice''\<rparr>,
        [VerifyIdToken ''tokA''])
   \<and> newObjectId example_env \<notin> note_id ` set example_store
   \<and> response (server example_env example_store
       \<lparr>authorization = Some ''Bearer tokA'', route = POST_notes, body = Map.empty\<rparr>)
     = \<lparr>status = 201, sent = JsonNote
         \<lparr>note_id = 3, userId = ''alice'', title = Some ''Untitled Note'', content = Some [],
          createdAt = 1700000000001, updatedAt = 1700000000002\<rparr>\<rparr>
   \<and> response (server example_env
        (db (server example_env example_store
           \<lparr>authorization = Some ''Bearer tokA'', route = POST_notes, body = Map.empty\<rparr>))
        \<lparr>authorization = Some ''Bearer tokA'', route = GET_note (toHexString 3), body = Map.empty\<rparr>)
     = \<lparr>status = 200, sent = JsonNote
         \<lparr>note_id = 3, userId = ''alice'', title = Some ''Untitled Note'', content = Some [],
          createdAt = 1700000000001, updatedAt = 1700000000002\<rparr>\<rparr>"
proof -
  have fresh: "newObjectId example_env \<notin> note_id ` set example_store"
    by (simp add: example_env_def example_store_def)
  have readings: "newObjectId example_env = 3" "now example_env (Suc 0) = 1700000000001"
    "now example_env 2 = 1700000000002"
    by (simp_all add: example_env_def)
  note created =
    create_defaults [OF example_auth_alice _ _ _ fresh example_auth_alice, of Map.empty Map.empty,
      simplified]
  show ?thesis
    using created [THEN conjunct1] created [THEN conjunct2, THEN conjunct1]
      created [THEN conjunct2, THEN conjunct2] fresh example_auth_alice
    by (simp add: readings)
qed

text \<open>
  C6. Two create requests that differ at most in a \<open>userId\<close> member of the body get
  the same answer and leave the same collection. Whenever a note is answered, its
  owner is the verified identity and the collection has grown by exactly this note;
  with a non-empty verified identity and a new identifier that is the case, the note
  stored being the one built from the verified identity and the \<open>title\<close> and
  \<open>content\<close> of the body. A request answered with an error stores nothing.
\<close>

theorem create_ignores_body_userId:
  assumes "\<forall>k. k \<noteq> ''userId'' \<longrightarrow> b1 k = b2 k"
  shows "server e s \<lparr>authorization = h, route = POST_notes, body = b1\<rparr>
           = server e s \<lparr>authorization = h, route = POST_notes, body = b2\<rparr>
       \<and> (\<forall>u cs n. authenticateToken e h = (Next u, cs)
             \<and> sent (response (server e s \<lparr>authorization = h, route = POST_notes, body = b1\<rparr>)) = JsonNote n
            \<longrightarrow> userId n = uid u
              \<and> db (server e s \<lparr>authorization = h, route = POST_notes, body = b1\<rparr>) = s @ [n])
       \<and> (\<forall>u cs. authenticateToken e h = (Next u, cs) \<and> uid u \<noteq> []
             \<and> newObjectId e \<notin> note_id ` set s
            \<longrightarrow> response (server e s \<lparr>authorization = h, route = POST_notes, body = b1\<rparr>)
                = \<lparr>status = 201, sent = JsonNote
                    \<lparr>note_id = newObjectId e, userId = uid u,
                   title = Some (or_default (b1 ''title'') ''Untitled Note''),
                   content = Some (or_default (b1 ''content'') []),
                   createdAt = now e 1, updatedAt = now e 2\<rparr>\<rparr>
              \<and> db (server e s \<lparr>authorization = h, route = POST_notes, body = b1\<rparr>)
                = s @ [\<lparr>note_id = newObjectId e, userId = uid u,
                   title = Some (or_default (b1 ''title'') ''Untitled Note''),
                   content = Some (or_default (b1 ''content'') []),
                   createdAt = now e 1, updatedAt = now e 2\<rparr>])
       \<and> (\<forall>msg. sent (response (server e s \<lparr>authorization = h, route = POST_notes, body = b1\<rparr>)) = JsonError msg
            \<longrightarrow> db (server e s \<lparr>authorization = h, route = POST_notes, body = b1\<rparr>) = s)"
proof (intro conjI allI impI)
  from assms have same: "b1 ''title'' = b2 ''title''" "b1 ''content'' = b2 ''content''"
    by simp_all
  then have "post_notes e s u b1 = post_notes e s u b2" for u
    by (simp add: post_notes_def)
  then show "server e s \<lparr>authorization = h, route = POST_notes, body = b1\<rparr>
           = server e s \<lparr>authorization = h, route = POST_notes, body = b2\<rparr>"
    by (simp add: server_def Let_def split: prod.splits auth_outcome.splits)
next
  fix u cs n
  assume a: "authenticateToken e h = (Next u, cs)
      \<and> sent (response (server e s \<lparr>authorization = h, route = POST_notes, body = b1\<rparr>)) = JsonNote n"
  show "userId n = uid u"
    using a by (auto simp: server_authenticated post_notes_def new_Note_def Let_def split: sum.splits)
  show "db (server e s \<lparr>authorization = h, route = POST_notes, body = b1\<rparr>) = s @ [n]"
    using a by (auto simp: server_authenticated post_notes_def new_Note_def save_def Let_def
        split: sum.splits if_splits)
next
  fix u cs
  assume a: "authenticateToken e h = (Next u, cs) \<and> uid u \<noteq> []
      \<and> newObjectId e \<notin> note_id ` set s"
  then have saved: "post_notes e s u b1
     = (\<lparr>status = 201, sent = JsonNote
          \<lparr>note_id = newObjectId e, userId = uid u,
                   title = Some (or_default (b1 ''title'') ''Untitled Note''),
                   content = Some (or_default (b1 ''content'') []),
                   createdAt = now e 1, updatedAt = now e 2\<rparr>\<rparr>,
        s @ [\<lparr>note_id = newObjectId e, userId = uid u,
                   title = Some (or_default (b1 ''title'') ''Untitled Note''),
                   content = Some (or_default (b1 ''content'') []),
                   createdAt = now e 1, updatedAt = now e 2\<rparr>])"
    by (simp add: post_notes_saved)
  show "response (server e s \<lparr>authorization = h, route = POST_notes, body = b1\<rparr>)
                = \<lparr>status = 201, sent = JsonNote
                    \<lparr>note_id = newObjectId e, userId = uid u,
                   title = Some (or_default (b1 ''title'') ''Untitled Note''),
                   content = Some (or_default (b1 ''content'') []),
                   createdAt = now e 1, updatedAt = now e 2\<rparr>\<rparr>"
    using a saved by (simp add: server_authenticated)
  show "db (server e s \<lparr>authorization = h, route = POST_notes, body = b1\<rparr>)
                = s @ [\<lparr>note_id = newObjectId e, userId = uid u,
                   title = Some (or_default (b1 ''title'') ''Untitled Note''),
                   content = Some (or_default (b1 ''content'') []),
                   createdAt = now e 1, updatedAt = now e 2\<rparr>]"
    using a saved by (simp add: server_authenticated)
next
  fix msg
  assume e: "sent (response (server e s \<lparr>authorization = h, route = POST_notes, body = b1\<rparr>)) = JsonError msg"
  show "db (server e s \<lparr>authorization = h, route = POST_notes, body = b1\<rparr>) = s"
  proof (cases "authenticateToken e h")
    case (Pair outcome cs)
    show ?thesis
    proof (cases outcome)
      case (Rejected resp)
      with Pair show ?thesis by (simp add: server_def)
    next
      case (Next u)
      with Pair e show ?thesis
        by (auto simp: server_authenticated post_notes_def save_def Let_def split: if_splits)
    qed
  qed
qed

theorem create_ignores_body_userId_witness:
  "server example_env example_store
       \<lparr>authorization = Some ''Bearer tokB'', route = POST_notes,
        body = [''title'' \<mapsto> ''Plan'', ''userId'' \<mapsto> ''alice'']\<rparr>
     = server example_env example_store
       \<lparr>authorization = Some ''Bearer tokB'', route = POST_notes, body = [''title'' \<mapsto> ''Plan'']\<rparr>
   \<and> response (server example_env example_store
       \<lparr>authorization = Some ''Bearer tokB'', route = POST_notes,
        body = [''title'' \<mapsto> ''Plan'', ''userId'' \<mapsto> ''alice'']\<rparr>)
     = \<lparr>status = 201, sent = JsonNote
         \<lparr>note_id = 3, userId = ''bob'', title = Some ''Plan'', content = Some [],
          createdAt = 1700000000001, updatedAt = 1700000000002\<rparr>\<rparr>
   \<and> db (server example_env example_store
       \<lparr>authorization = Some ''Bearer tokB'', route = POST_notes,
        body = [''title'' \<mapsto> ''Plan'', ''userId'' \<mapsto> ''alice'']\<rparr>)
     = example_store
         @ [\<lparr>note_id = 3, userId = ''bob'', title = Some ''Plan'', content = Some [],
             createdAt = 1700000000001, updatedAt = 1700000000002\<rparr>]"
proof -
  have differ: "\<forall>k. k \<noteq> ''userId'' \<longrightarrow>
      [''title'' \<mapsto> ''Plan'', ''userId'' \<mapsto> ''alice''] k = [''title'' \<mapsto> ''Plan''] k"
    by simp
  have fresh: "newObjectId example_env \<notin> note_id ` set example_store"
    by (simp add: example_env_def example_store_def)
  have readings: "newObjectId example_env = 3" "now example_env (Suc 0) = 1700000000001"
    "now example_env 2 = 1700000000002"
    by (simp_all add: example_env_def)
  note ignored =
    create_ignores_body_userId [OF differ, of example_env example_store "Some ''Bearer tokB''"]
  note stored =
    ignored [THEN conjunct2, THEN conjunct2, THEN conjunct1, rule_format,
      of "\<lparr>uid = ''bob'', email = Some ''bob@example.org'', name = None\<rparr>" "[VerifyIdToken ''tokB'']"]
  have "response (server example_env example_store
       \<lparr>authorization = Some ''Bearer tokB'', route = POST_notes,
        body = [''title'' \<mapsto> ''Plan'', ''userId'' \<mapsto> ''alice'']\<rparr>)
     = \<lparr>status = 201, sent = JsonNote
         \<lparr>note_id = 3, userId = ''bob'', title = Some ''Plan'', content = Some [],
          createdAt = 1700000000001, updatedAt = 1700000000002\<rparr>\<rparr>
   \<and> db (server example_env example_store
       \<lparr>authorization = Some ''Bearer tokB'', route = POST_notes,
        body = [''title'' \<mapsto> ''Plan'', ''userId'' \<mapsto> ''alice'']\<rparr>)
     = example_store
         @ [\<lparr>note_id = 3, userId = ''bob'', title = Some ''Plan'', content = Some [],
             createdAt = 1700000000001, updatedAt = 1700000000002\<rparr>]"
    using stored fresh example_auth_bob by (simp add: readings or_default_def)
  with ignored [THEN conjunct1] show ?thesis by (rule conjI)
qed

subsection \<open>What the routes preserve\<close>

text \<open>
  The identifiers of a collection stay pairwise distinct under every request, and an
  update changes neither the identifier, nor the owner, nor \<open>createdAt\<close> of any note.
\<close>

lemma update_first_map:
  "(\<And>x. g (f x) = g x) \<Longrightarrow> map g (update_first P f s) = map g s"
  by (induction s) simp_all

lemma set_delete_first: "set (delete_first P s) \<subseteq> set s"
  by (induction s) auto

lemma delete_first_distinct:
  "distinct (map note_id s) \<Longrightarrow> distinct (map note_id (delete_first P s))"
proof (induction s)
  case Nil
  then show ?case by simp
next
  case (Cons m s)
  have "note_id ` set (delete_first P s) \<subseteq> note_id ` set s"
    using set_delete_first [of P s] by (rule image_mono)
  with Cons show ?case by auto
qed

lemma put_note_keeps:
  "map note_id (snd (put_note e s u i b)) = map note_id s
   \<and> map userId (snd (put_note e s u i b)) = map userId s
   \<and> map createdAt (snd (put_note e s u i b)) = map createdAt s"
  by (simp add: put_note_def findOneAndUpdate_def apply_update_def update_first_map
      split: option.splits)

lemma handler_keeps_distinct:
  assumes "distinct (map note_id s)"
  shows "distinct (map note_id (db (handler e s u b rt)))"
proof (cases rt)
  case POST_notes
  with assms show ?thesis
    by (simp add: post_notes_def save_def Let_def)
next
  case (PUT_note i)
  with assms put_note_keeps [of e s u i b] show ?thesis
    by (simp add: split_beta)
next
  case (DELETE_note i)
  with assms show ?thesis
    by (simp add: delete_note_def findOneAndDelete_def delete_first_distinct
        split: option.splits)
next
  case POST_ai_summarize
  with assms show ?thesis by (simp add: split_beta)
qed (use assms in simp_all)

lemma server_keeps_distinct:
  "distinct (map note_id s) \<Longrightarrow> distinct (map note_id (db (server e s r)))"
  by (simp add: server_def handler_keeps_distinct Let_def split: prod.splits auth_outcome.splits)

subsection \<open>Updating\<close>

text \<open>
  The identifier of a request is any string. One that is not an ObjectId matches no
  note, and the update it asks for is answered 500, not 404: the cast of the filter
  throws and the handler's \<open>catch\<close> answers.
\<close>

theorem update_unknown_id_counterexample:
  "''abc'' \<notin> toHexString ` note_id ` set example_store
   \<and> response (server example_env example_store
         \<lparr>authorization = Some ''Bearer tokA'', route = PUT_note ''abc'',
          body = [''title'' \<mapsto> ''x'']\<rparr>)
       = \<lparr>status = 500, sent = JsonError ''Failed to update note''\<rparr>"
proof
  have "''abc'' \<noteq> toHexString w" for w
  proof
    assume "''abc'' = toHexString w"
    then have "length ''abc'' = length (toHexString w)" by (rule arg_cong)
    then show False by (simp add: length_toHexString)
  qed
  then show "''abc'' \<notin> toHexString ` note_id ` set example_store"
    by blast
  show "response (server example_env example_store
         \<lparr>authorization = Some ''Bearer tokA'', route = PUT_note ''abc'',
          body = [''title'' \<mapsto> ''x'']\<rparr>)
       = \<lparr>status = 500, sent = JsonError ''Failed to update note''\<rparr>"
    by (simp add: server_authenticated [OF example_auth_alice] put_note_def
        findOneAndUpdate_def castObjectId_short)
qed

text \<open>
  C7 (amended). An update request whose identifier matches no note of the caller (no
  note has it, or the note that has it belongs to someone else) leaves the collection
  unchanged. It is answered 404 \<open>Note not found\<close> when the identifier is a well-formed
  ObjectId, and 500 \<open>Failed to update note\<close> when it is not one (the strings of 12
  characters, which only older drivers take for one, are left aside).
\<close>

theorem update_failure_atomic:
  assumes "authenticateToken e h = (Next u, cs)"
    and "\<not> (\<exists>n \<in> set s. castObjectId i = Some (note_id n) \<and> userId n = uid u)"
  shows "db (server e s \<lparr>authorization = h, route = PUT_note i, body = bd\<rparr>) = s
       \<and> (castObjectId i \<noteq> None \<longrightarrow>
            response (server e s \<lparr>authorization = h, route = PUT_note i, body = bd\<rparr>)
              = \<lparr>status = 404, sent = JsonError ''Note not found''\<rparr>)
       \<and> (castObjectId i = None \<and> length i \<noteq> 12 \<longrightarrow>
            response (server e s \<lparr>authorization = h, route = PUT_note i, body = bd\<rparr>)
              = \<lparr>status = 500, sent = JsonError ''Failed to update note''\<rparr>)"
proof (cases "castObjectId i")
  case None
  with assms(1) show ?thesis
    by (simp add: server_authenticated put_note_def findOneAndUpdate_def)
next
  case (Some x)
  with assms(2) have "find (matches x (uid u)) s = None"
    by (auto simp: find_matches_None)
  with Some assms(1) show ?thesis
    by (simp add: server_authenticated put_note_def findOneAndUpdate_def)
qed

theorem update_failure_atomic_witness:
  "castObjectId (toHexString 2) = Some 2
   \<and> db (server example_env example_store
         \<lparr>authorization = Some ''Bearer tokA'', route = PUT_note (toHexString 2),
          body = [''title'' \<mapsto> ''x'']\<rparr>) = example_store
   \<and> response (server example_env example_store
         \<lparr>authorization = Some ''Bearer tokA'', route = PUT_note (toHexString 2),
          body = [''title'' \<mapsto> ''x'']\<rparr>)
       = \<lparr>status = 404, sent = JsonError ''Note not found''\<rparr>
   \<and> castObjectId ''abc'' = None
   \<and> length ''abc'' = 3
   \<and> db (server example_env example_store
         \<lparr>authorization = Some ''Bearer tokA'', route = PUT_note ''abc'',
          body = [''title'' \<mapsto> ''x'']\<rparr>) = example_store"
  using update_failure_atomic [OF example_auth_alice, of example_store "toHexString 2"
      "[''title'' \<mapsto> ''x'']"]
    update_failure_atomic [OF example_auth_alice, of example_store "''abc''"
      "[''title'' \<mapsto> ''x'']"]
  by (simp add: castObjectId_toHexString castObjectId_short example_store_def)

subsection \<open>Deleting\<close>

text \<open>
  C8. For a note of the caller, a first Delete is answered 204 with no content and
  removes the note (and nothing else); the same request again is answered 404
  \<open>Note not found\<close> and leaves the collection as the first Delete left it.
\<close>

theorem delete_twice:
  assumes "authenticateToken e h = (Next u, cs)"
    and "distinct (map note_id s)"
    and "n \<in> set s" and "userId n = uid u"
  shows "response (server e s
            \<lparr>authorization = h, route = DELETE_note (toHexString (note_id n)), body = bd\<rparr>)
           = \<lparr>status = 204, sent = NoBody\<rparr>
       \<and> db (server e s
            \<lparr>authorization = h, route = DELETE_note (toHexString (note_id n)), body = bd\<rparr>)
           = filter (\<lambda>m. note_id m \<noteq> note_id n) s
       \<and> n \<notin> set (db (server e s
            \<lparr>authorization = h, route = DELETE_note (toHexString (note_id n)), body = bd\<rparr>))
       \<and> response (server e (filter (\<lambda>m. note_id m \<noteq> note_id n) s)
            \<lparr>authorization = h, route = DELETE_note (toHexString (note_id n)), body = bd\<rparr>)
           = \<lparr>status = 404, sent = JsonError ''Note not found''\<rparr>
       \<and> db (server e (filter (\<lambda>m. note_id m \<noteq> note_id n) s)
            \<lparr>authorization = h, route = DELETE_note (toHexString (note_id n)), body = bd\<rparr>)
           = filter (\<lambda>m. note_id m \<noteq> note_id n) s"
proof -
  have first: "find (matches (note_id n) (uid u)) s = Some n"
    using find_matches_own [OF assms(2,3)] assms(4) by simp
  have removed: "delete_first (matches (note_id n) (uid u)) s
      = filter (\<lambda>m. note_id m \<noteq> note_id n) s"
    using delete_first_own [OF assms(2,3)] assms(4) by simp
  have second: "find (matches (note_id n) (uid u)) (filter (\<lambda>m. note_id m \<noteq> note_id n) s) = None"
    by (auto simp: find_matches_None)
  from assms(1) first removed second show ?thesis
    by (simp add: server_authenticated delete_note_def findOneAndDelete_def
        castObjectId_toHexString)
qed

theorem delete_twice_witness:
  "response (server example_env example_store
       \<lparr>authorization = Some ''Bearer tokA'', route = DELETE_note (toHexString 1),
        body = Map.empty\<rparr>)
     = \<lparr>status = 204, sent = NoBody\<rparr>
   \<and> db (server example_env example_store
       \<lparr>authorization = Some ''Bearer tokA'', route = DELETE_note (toHexString 1),
        body = Map.empty\<rparr>)
     = [\<lparr>note_id = 2, userId = ''bob'', title = Some ''Ideas'', content = Some [],
         createdAt = 1600000000100, updatedAt = 1600000000100\<rparr>,
        \<lparr>note_id = 4, userId = ''alice'', title = Some ''Minutes'', content = Some ''agenda'',
         createdAt = 1600000000200, updatedAt = 1600000000900\<rparr>]
   \<and> response (server example_env
        [\<lparr>note_id = 2, userId = ''bob'', title = Some ''Ideas'', content = Some [],
          createdAt = 1600000000100, updatedAt = 1600000000100\<rparr>,
         \<lparr>note_id = 4, userId = ''alice'', title = Some ''Minutes'', content = Some ''agenda'',
          createdAt = 1600000000200, updatedAt = 1600000000900\<rparr>]
       \<lparr>authorization = Some ''Bearer tokA'', route = DELETE_note (toHexString 1),
        body = Map.empty\<rparr>)
     = \<lparr>status = 404, sent = JsonError ''Note not found''\<rparr>"
  using delete_twice [OF example_auth_alice, of example_store
      "\<lparr>note_id = 1, userId = ''alice'', title = Some ''Shopping'', content = Some ''milk'',
        createdAt = 1600000000000, updatedAt = 1600000000500\<rparr>" Map.empty]
  by (simp add: example_store_def)


subsection \<open>Refusing an assist request without text\<close>

lemma falsy_cases: "falsy v \<longleftrightarrow> v = None \<or> v = Some []"
  by (simp add: falsy_def split: option.splits)

text \<open>
  C9. In every deployment, an assist operation (summarize, improve, ideas) whose
  required member (\<open>text\<close>; \<open>topic\<close> for the ideas of the Hugging Face deployment) is
  missing or empty answers 400 and makes no call to the text provider: the handler's
  trace is empty, and behind the middleware the trace of the request is the
  middleware's own.
\<close>

theorem assist_requires_text:
  "(falsy (b ''text'') \<longrightarrow>
      ai_summarize e b = (\<lparr>status = 400, sent = JsonError ''Text is required''\<rparr>, [])
    \<and> (\<forall>a. gemini_assist a e b = (\<lparr>status = 400, sent = JsonError ''No text provided''\<rparr>, [])
          \<and> gemini_assist_brief a e b
              = (\<lparr>status = 400, sent = JsonError ''No text provided''\<rparr>, []))
    \<and> hf_assist Summarize e b = (\<lparr>status = 400, sent = JsonError ''Text is required''\<rparr>, [])
    \<and> hf_assist Improve e b = (\<lparr>status = 400, sent = JsonError ''Text is required''\<rparr>, [])
    \<and> (\<forall>u cs. authenticateToken e h = (Next u, cs) \<longrightarrow>
          server e s \<lparr>authorization = h, route = POST_ai_summarize, body = b\<rparr>
            = \<lparr>response = \<lparr>status = 400, sent = JsonError ''Text is required''\<rparr>, db = s,
               calls = cs\<rparr>
          \<and> (\<forall>a. gemini_route a e h b
                   = (\<lparr>status = 400, sent = JsonError ''No text provided''\<rparr>, cs)
                \<and> gemini_route_brief a e h b
                   = (\<lparr>status = 400, sent = JsonError ''No text provided''\<rparr>, cs))))
   \<and> (falsy (b ''topic'') \<longrightarrow>
        hf_assist Ideas e b = (\<lparr>status = 400, sent = JsonError ''Topic is required''\<rparr>, [])
      \<and> hf_route Ideas e h b = (\<lparr>status = 400, sent = JsonError ''Topic is required''\<rparr>, []))"
proof (intro conjI impI allI)
  assume t: "falsy (b ''text'')"
  show summ: "ai_summarize e b = (\<lparr>status = 400, sent = JsonError ''Text is required''\<rparr>, [])"
    using t by (auto simp: ai_summarize_def falsy_cases trim_def)
  show g: "gemini_assist a e b = (\<lparr>status = 400, sent = JsonError ''No text provided''\<rparr>, [])" for a
    using t by (cases a) (auto simp: gemini_handler_def falsy_cases)
  show g1: "gemini_assist_brief a e b
      = (\<lparr>status = 400, sent = JsonError ''No text provided''\<rparr>, [])" for a
    using t by (cases a) (auto simp: gemini_handler_def falsy_cases)
  show "hf_assist Summarize e b = (\<lparr>status = 400, sent = JsonError ''Text is required''\<rparr>, [])"
    using t by (auto simp: hf_summarize_def falsy_cases)
  show "hf_assist Improve e b = (\<lparr>status = 400, sent = JsonError ''Text is required''\<rparr>, [])"
    using t by (auto simp: hf_improve_def falsy_cases)
  fix u cs
  assume a: "authenticateToken e h = (Next u, cs)"
  show "server e s \<lparr>authorization = h, route = POST_ai_summarize, body = b\<rparr>
            = \<lparr>response = \<lparr>status = 400, sent = JsonError ''Text is required''\<rparr>, db = s,
               calls = cs\<rparr>"
    using a summ by (simp add: server_authenticated)
  show "gemini_route a e h b = (\<lparr>status = 400, sent = JsonError ''No text provided''\<rparr>, cs)" for a
    using a g [of a] by (simp add: gemini_route_def behind_auth_def)
  show "gemini_route_brief a e h b
      = (\<lparr>status = 400, sent = JsonError ''No text provided''\<rparr>, cs)" for a
    using a g1 [of a] by (simp add: gemini_route_brief_def behind_auth_def)
next
  assume t: "falsy (b ''topic'')"
  then show i: "hf_assist Ideas e b = (\<lparr>status = 400, sent = JsonError ''Topic is required''\<rparr>, [])"
    by (auto simp: hf_ideas_def falsy_cases)
  then show "hf_route Ideas e h b = (\<lparr>status = 400, sent = JsonError ''Topic is required''\<rparr>, [])"
    by (simp add: hf_route_def)
qed

theorem assist_requires_text_witness:
  "falsy ([''text'' \<mapsto> []] ''text'')
   \<and> falsy ([''text'' \<mapsto> []] ''topic'')
   \<and> ai_summarize example_env [''text'' \<mapsto> []]
       = (\<lparr>status = 400, sent = JsonError ''Text is required''\<rparr>, [])
   \<and> gemini_assist Improve example_env [''text'' \<mapsto> []]
       = (\<lparr>status = 400, sent = JsonError ''No text provided''\<rparr>, [])
   \<and> hf_assist Ideas example_env [''text'' \<mapsto> []]
       = (\<lparr>status = 400, sent = JsonError ''Topic is required''\<rparr>, [])
   \<and> server example_env example_store
        \<lparr>authorization = Some ''Bearer tokA'', route = POST_ai_summarize, body = [''text'' \<mapsto> []]\<rparr>
       = \<lparr>response = \<lparr>status = 400, sent = JsonError ''Text is required''\<rparr>, db = example_store,
          calls = [VerifyIdToken ''tokA'']\<rparr>"
proof -
  have empty: "falsy ([''text'' \<mapsto> []] ''text'')" "falsy ([''text'' \<mapsto> []] ''topic'')"
    by (simp_all add: falsy_def)
  note refused =
    assist_requires_text [of "[''text'' \<mapsto> []]" example_env "Some ''Bearer tokA''" example_store]
  from refused [THEN conjunct1, rule_format, OF empty(1)]
    refused [THEN conjunct2, rule_format, OF empty(2)] empty example_auth_alice
  show ?thesis by (simp del: gemini_assist.simps hf_assist.simps)
qed

text \<open>
  With a text the provider is reached; \<open>server.js\<close> also refuses a text of white
  space only, which the other deployments forward.
\<close>

lemma assist_reaches_provider:
  "ai_summarize example_env [''text'' \<mapsto> ''long text'']
     = (\<lparr>status = 200, sent = JsonSummary ''- a summary''\<rparr>,
        [OpenAIChat (''Summarize this in 3-5 concise bullet points:'' @ blank_line @ ''long text'')])"
  "ai_summarize example_env [''text'' \<mapsto> ''  '']
     = (\<lparr>status = 400, sent = JsonError ''Text is required''\<rparr>, [])"
  "gemini_assist Summarize example_env [''text'' \<mapsto> ''  '']
     = (\<lparr>status = 200, sent = JsonResult ''a result''\<rparr>,
        [GeminiGenerate (''Summarize the following text:'' @ blank_line @ ''  '')])"
  "hf_assist Ideas example_env [''topic'' \<mapsto> ''tea'']
     = (\<lparr>status = 200, sent = JsonIdeas ['' first '', '' second'']\<rparr>,
        [HFQuery ''EleutherAI/gpt-neo-1.3B''
           (''Generate 5 creative ideas about: tea'' @ blank_line @ ''1.'')])"
  by (simp_all add: ai_summarize_def gemini_handler_def hf_ideas_def falsy_def or_default_def
      trim_def is_space_def is_digit_def blank_line_def example_env_def)

subsection \<open>The token of a header\<close>

lemma split_space_unfold:
  "split_space t =
     takeWhile (\<lambda>c. c \<noteq> CHR '' '') t
       # (case after_first_space t of None \<Rightarrow> [] | Some rest \<Rightarrow> split_space rest)"
  by (induction t) (auto simp: after_first_space_def split: list.splits)

lemma split_space_second:
  "(if 1 < length (split_space t) then Some (split_space t ! 1) else None)
     = map_option (takeWhile (\<lambda>c. c \<noteq> CHR '' '')) (after_first_space t)"
proof (cases "after_first_space t")
  case None
  then show ?thesis
    using split_space_unfold [of t] by simp
next
  case (Some rest)
  have "split_space t = takeWhile (\<lambda>c. c \<noteq> CHR '' '') t # split_space rest"
    using split_space_unfold [of t] Some by simp
  moreover have "split_space rest = takeWhile (\<lambda>c. c \<noteq> CHR '' '') rest
       # (case after_first_space rest of None \<Rightarrow> [] | Some r \<Rightarrow> split_space r)"
    by (rule split_space_unfold)
  ultimately show ?thesis
    using Some by simp
qed

text \<open>
  The token is not the substring after the first space: a second space ends it, and
  a header with two spaces after the scheme has an empty token, so that it is refused
  without the verifier being asked although text follows the first space.
\<close>

theorem token_counterexample:
  "extract_token (Some ''Bearer abc def'') = Some ''abc''
   \<and> after_first_space ''Bearer abc def'' = Some ''abc def''
   \<and> after_first_space ''Bearer  tokA'' = Some '' tokA''
   \<and> server example_env example_store
        \<lparr>authorization = Some ''Bearer  tokA'', route = GET_notes, body = Map.empty\<rparr>
       = \<lparr>response = \<lparr>status = 401, sent = JsonError ''Unauthorized''\<rparr>, db = example_store,
          calls = []\<rparr>"
  by (simp add: extract_token_def after_first_space_def server_def authenticateToken_def)

text \<open>
  C10 (amended). The token is element 1 of the header split at single spaces: the
  text between the first space and the second (or the end of the header). A header
  without a space has none; so a bare token sent without the \<open>Bearer\<close> prefix, and
  the word \<open>Bearer\<close> alone, have none. Whenever there is no such element or it is empty,
  the request is answered 401 \<open>Unauthorized\<close> and the verifier is not consulted.
\<close>

theorem token_extraction:
  assumes "route r \<noteq> GET_test" and "authorization r = Some h"
  shows "extract_token (Some h)
           = (if h = [] then Some []
              else map_option (takeWhile (\<lambda>c. c \<noteq> CHR '' '')) (after_first_space h))
       \<and> (CHR '' '' \<notin> set h \<longrightarrow> after_first_space h = None)
       \<and> (falsy (map_option (takeWhile (\<lambda>c. c \<noteq> CHR '' '')) (after_first_space h)) \<longrightarrow>
            server e s r
              = \<lparr>response = \<lparr>status = 401, sent = JsonError ''Unauthorized''\<rparr>, db = s,
                 calls = []\<rparr>)"
proof (intro conjI impI)
  show tok: "extract_token (Some h)
           = (if h = [] then Some []
              else map_option (takeWhile (\<lambda>c. c \<noteq> CHR '' '')) (after_first_space h))"
    using split_space_second [of h] by (simp add: extract_token_def Let_def)
  show "after_first_space h = None" if "CHR '' '' \<notin> set h"
  proof -
    from that have "dropWhile (\<lambda>c. c \<noteq> CHR '' '') h = []" by auto
    then show ?thesis by (simp only: after_first_space_def list.case)
  qed
  show "server e s r
      = \<lparr>response = \<lparr>status = 401, sent = JsonError ''Unauthorized''\<rparr>, db = s, calls = []\<rparr>"
    if "falsy (map_option (takeWhile (\<lambda>c. c \<noteq> CHR '' '')) (after_first_space h))"
  proof -
    from that tok have "falsy (extract_token (authorization r))"
      by (auto simp: assms(2) falsy_def)
    then show ?thesis
      using assms(1) by (simp add: server_rejected authenticate_no_token)
  qed
qed

theorem token_extraction_witness:
  "extract_token (Some ''Bearer tokA'') = Some ''tokA''
   \<and> CHR '' '' \<notin> set ''tokA''
   \<and> verifyIdToken example_env ''tokA'' = Some (Some alice)
   \<and> server example_env example_store
        \<lparr>authorization = Some ''tokA'', route = GET_notes, body = Map.empty\<rparr>
       = \<lparr>response = \<lparr>status = 401, sent = JsonError ''Unauthorized''\<rparr>, db = example_store,
          calls = []\<rparr>
   \<and> server example_env example_store
        \<lparr>authorization = Some ''Bearer'', route = GET_notes, body = Map.empty\<rparr>
       = \<lparr>response = \<lparr>status = 401, sent = JsonError ''Unauthorized''\<rparr>, db = example_store,
          calls = []\<rparr>"
  using token_extraction [of "\<lparr>authorization = Some ''tokA'', route = GET_notes, body = Map.empty\<rparr>"
      "''tokA''" example_env example_store]
    token_extraction [of "\<lparr>authorization = Some ''Bearer'', route = GET_notes, body = Map.empty\<rparr>"
      "''Bearer''" example_env example_store]
    token_extraction [of "\<lparr>authorization = Some ''Bearer tokA'', route = GET_notes, body = Map.empty\<rparr>"
      "''Bearer tokA''" example_env example_store]
  by (simp add: after_first_space_def falsy_def example_env_def example_verifier_def)


subsection \<open>What an update writes\<close>

lemma update_first_own:
  assumes "distinct (map note_id s)" "n \<in> set s"
  shows "update_first (matches (note_id n) (userId n)) f s
     = map (\<lambda>m. if note_id m = note_id n then f n else m) s"
  using assms
proof (induction s)
  case Nil
  then show ?case by simp
next
  case (Cons m s)
  show ?case
  proof (cases "m = n")
    case True
    with Cons.prems have "note_id n \<notin> note_id ` set s" by simp
    then have "\<forall>k \<in> set s. note_id k \<noteq> note_id n" by (metis imageI)
    then have "map (\<lambda>m. if note_id m = note_id n then f n else m) s = s"
      by (simp add: map_idI)
    with True show ?thesis by (simp add: matches_def)
  next
    case False
    with Cons.prems have "n \<in> set s" "note_id m \<noteq> note_id n" by auto
    with Cons show ?thesis by (simp add: matches_def)
  qed
qed

lemma update_on_match:
  assumes "authenticateToken e h = (Next u, cs)"
    and "distinct (map note_id s)"
    and "n \<in> set s" and "userId n = uid u"
  shows "response (server e s
            \<lparr>authorization = h, route = PUT_note (toHexString (note_id n)), body = bd\<rparr>)
           = \<lparr>status = 200,
              sent = JsonNote (apply_update (omitUndefined e) (bd ''title'') (bd ''content'')
                                 (now e 0) n)\<rparr>"
    and "db (server e s
            \<lparr>authorization = h, route = PUT_note (toHexString (note_id n)), body = bd\<rparr>)
           = update_first (matches (note_id n) (uid u))
               (apply_update (omitUndefined e) (bd ''title'') (bd ''content'') (now e 0)) s"
proof -
  have "find (matches (note_id n) (uid u)) s = Some n"
    using find_matches_own [OF assms(2,3)] assms(4) by simp
  with assms(1) show
    "response (server e s
            \<lparr>authorization = h, route = PUT_note (toHexString (note_id n)), body = bd\<rparr>)
           = \<lparr>status = 200,
              sent = JsonNote (apply_update (omitUndefined e) (bd ''title'') (bd ''content'')
                                 (now e 0) n)\<rparr>"
    "db (server e s
            \<lparr>authorization = h, route = PUT_note (toHexString (note_id n)), body = bd\<rparr>)
           = update_first (matches (note_id n) (uid u))
               (apply_update (omitUndefined e) (bd ''title'') (bd ''content'') (now e 0)) s"
    by (simp_all add: server_authenticated put_note_def findOneAndUpdate_def
        castObjectId_toHexString)
qed

text \<open>
  An absent member does not overwrite the stored field where Mongoose drops the keys
  of an update whose value is \<open>undefined\<close>, as it does from version 6 on: an update
  that carries only \<open>content\<close> leaves the title as it was.
\<close>

theorem update_absent_field_counterexample:
  "[''content'' \<mapsto> ''eggs''] ''title'' = None
   \<and> response (server example_env example_store
       \<lparr>authorization = Some ''Bearer tokA'', route = PUT_note (toHexString 1),
        body = [''content'' \<mapsto> ''eggs'']\<rparr>)
     = \<lparr>status = 200, sent = JsonNote
         \<lparr>note_id = 1, userId = ''alice'', title = Some ''Shopping'', content = Some ''eggs'',
          createdAt = 1600000000000, updatedAt = 1700000000000\<rparr>\<rparr>"
proof -
  have "response (server example_env example_store
       \<lparr>authorization = Some ''Bearer tokA'', route = PUT_note (toHexString 1),
        body = [''content'' \<mapsto> ''eggs'']\<rparr>)
     = \<lparr>status = 200, sent = JsonNote
         (apply_update (omitUndefined example_env) None (Some ''eggs'') (now example_env 0)
            \<lparr>note_id = 1, userId = ''alice'', title = Some ''Shopping'', content = Some ''milk'',
             createdAt = 1600000000000, updatedAt = 1600000000500\<rparr>)\<rparr>"
    using update_on_match(1) [OF example_auth_alice, of example_store
      "\<lparr>note_id = 1, userId = ''alice'', title = Some ''Shopping'', content = Some ''milk'',
        createdAt = 1600000000000, updatedAt = 1600000000500\<rparr>" "[''content'' \<mapsto> ''eggs'']"]
    by (simp add: example_store_def)
  then show ?thesis
    by (simp add: apply_update_def set_field_def example_env_def)
qed

text \<open>
  C2 (amended). With a Mongoose that omits \<open>undefined\<close> keys from an update (version 6
  and later; the earlier ones, which write \<open>null\<close> for such a key, are left aside), an
  update of a note of the caller is answered 200 with the updated document, and the
  collection holds this document in place of the note, every other note being as it
  was. In the updated document a field (\<open>title\<close>, \<open>content\<close>) whose member is present in
  the body has the member's value, a field whose member is absent keeps its stored
  value, and \<open>updatedAt\<close> is the reading of the clock.
\<close>

theorem update_writes_present_fields:
  assumes "authenticateToken e h = (Next u, cs)"
    and "distinct (map note_id s)"
    and "n \<in> set s" and "userId n = uid u"
    and "omitUndefined e"
  shows "response (server e s
            \<lparr>authorization = h, route = PUT_note (toHexString (note_id n)), body = bd\<rparr>)
           = \<lparr>status = 200, sent = JsonNote
               (n\<lparr>title := (case bd ''title'' of None \<Rightarrow> title n | Some t \<Rightarrow> Some t),
                  content := (case bd ''content'' of None \<Rightarrow> content n | Some c \<Rightarrow> Some c),
                  updatedAt := now e 0\<rparr>)\<rparr>
       \<and> db (server e s
            \<lparr>authorization = h, route = PUT_note (toHexString (note_id n)), body = bd\<rparr>)
           = map (\<lambda>m. if note_id m = note_id n
                    then (n\<lparr>title := (case bd ''title'' of None \<Rightarrow> title n | Some t \<Rightarrow> Some t),
                  content := (case bd ''content'' of None \<Rightarrow> content n | Some c \<Rightarrow> Some c),
                  updatedAt := now e 0\<rparr>)
                    else m) s"
proof -
  have same: "apply_update (omitUndefined e) (bd ''title'') (bd ''content'') (now e 0) n
      = (n\<lparr>title := (case bd ''title'' of None \<Rightarrow> title n | Some t \<Rightarrow> Some t),
                  content := (case bd ''content'' of None \<Rightarrow> content n | Some c \<Rightarrow> Some c),
                  updatedAt := now e 0\<rparr>)"
    using assms(5) by (simp add: apply_update_def set_field_def)
  have "update_first (matches (note_id n) (uid u))
          (apply_update (omitUndefined e) (bd ''title'') (bd ''content'') (now e 0)) s
      = map (\<lambda>m. if note_id m = note_id n
               then apply_update (omitUndefined e) (bd ''title'') (bd ''content'') (now e 0) n
               else m) s"
    using update_first_own [OF assms(2,3)] assms(4) by simp
  with update_on_match [OF assms(1-4), of bd] same show ?thesis by simp
qed

theorem update_writes_present_fields_witness:
  "omitUndefined example_env
   \<and> response (server example_env example_store
       \<lparr>authorization = Some ''Bearer tokA'', route = PUT_note (toHexString 1),
        body = [''title'' \<mapsto> ''Groceries'']\<rparr>)
     = \<lparr>status = 200, sent = JsonNote
         \<lparr>note_id = 1, userId = ''alice'', title = Some ''Groceries'', content = Some ''milk'',
          createdAt = 1600000000000, updatedAt = 1700000000000\<rparr>\<rparr>
   \<and> db (server example_env example_store
       \<lparr>authorization = Some ''Bearer tokA'', route = PUT_note (toHexString 1),
        body = [''title'' \<mapsto> ''Groceries'']\<rparr>)
     = [\<lparr>note_id = 1, userId = ''alice'', title = Some ''Groceries'', content = Some ''milk'',
         createdAt = 1600000000000, updatedAt = 1700000000000\<rparr>,
        \<lparr>note_id = 2, userId = ''bob'', title = Some ''Ideas'', content = Some [],
         createdAt = 1600000000100, updatedAt = 1600000000100\<rparr>,
        \<lparr>note_id = 4, userId = ''alice'', title = Some ''Minutes'', content = Some ''agenda'',
         createdAt = 1600000000200, updatedAt = 1600000000900\<rparr>]"
proof -
  have readings: "omitUndefined example_env" "now example_env 0 = 1700000000000"
    by (simp_all add: example_env_def)
  note written =
    update_writes_present_fields [OF example_auth_alice, of example_store
      "\<lparr>note_id = 1, userId = ''alice'', title = Some ''Shopping'', content = Some ''milk'',
        createdAt = 1600000000000, updatedAt = 1600000000500\<rparr>" "[''title'' \<mapsto> ''Groceries'']"]
  show ?thesis
    using written [THEN conjunct1] written [THEN conjunct2] readings(1)
    by (simp add: readings example_store_def)
qed

lemma apply_update_fields:
  "title (apply_update omit (Some t) c at n) = Some t"
  "content (apply_update omit t' (Some c') at n) = Some c'"
  "title (apply_update True None c at n) = title n"
  "title (apply_update False None c at n) = None"
  "content (apply_update True t' None at n) = content n"
  "content (apply_update False t' None at n) = None"
  "updatedAt (apply_update omit t' c at n) = at"
  "createdAt (apply_update omit t' c at n) = createdAt n"
  "userId (apply_update omit t' c at n) = userId n"
  "note_id (apply_update omit t' c at n) = note_id n"
  by (simp_all add: apply_update_def set_field_def)

end
